theory Spec2Isabelle
  imports Complex_Main
begin

section \<open>Numeric cells\<close>

text \<open>
  Every number the dashboard handles is a cell of a pandas column of dtype float64, or a
  Python numeric literal combined with one. The operators of \<^verbatim>\<open>app.py\<close> on such
  values never raise: a division by zero yields an infinity or a NaN, and a comparison with
  a NaN is false. The type \<open>fval\<close> keeps exactly these special values. A finite value is
  a real number, so the arithmetic on finite values is exact: rounding, overflow to an
  infinity and the sign of a zero are not modelled (the one zero is the positive one).
\<close>

datatype fval = Fin real | PInf | NInf | NaN

fun flt :: "fval \<Rightarrow> fval \<Rightarrow> bool" where
  "flt (Fin a) (Fin b) = (a < b)"
| "flt (Fin a) PInf = True"
| "flt NInf (Fin b) = True"
| "flt NInf PInf = True"
| "flt _ _ = False"

fun fle :: "fval \<Rightarrow> fval \<Rightarrow> bool" where
  "fle (Fin a) (Fin b) = (a \<le> b)"
| "fle (Fin a) PInf = True"
| "fle NInf (Fin b) = True"
| "fle NInf NInf = True"
| "fle NInf PInf = True"
| "fle PInf PInf = True"
| "fle _ _ = False"

definition fgt :: "fval \<Rightarrow> fval \<Rightarrow> bool" where
  "fgt x y = flt y x"

definition fge :: "fval \<Rightarrow> fval \<Rightarrow> bool" where
  "fge x y = fle y x"

fun fsign :: "fval \<Rightarrow> real" where
  "fsign (Fin a) = sgn a"
| "fsign PInf = 1"
| "fsign NInf = - 1"
| "fsign NaN = 0"

definition inf_of_sign :: "real \<Rightarrow> fval" where
  "inf_of_sign s = (if 0 < s then PInf else if s < 0 then NInf else NaN)"

fun fadd :: "fval \<Rightarrow> fval \<Rightarrow> fval" where
  "fadd NaN y = NaN"
| "fadd x NaN = NaN"
| "fadd (Fin a) (Fin b) = Fin (a + b)"
| "fadd PInf NInf = NaN"
| "fadd NInf PInf = NaN"
| "fadd PInf y = PInf"
| "fadd NInf y = NInf"
| "fadd (Fin a) y = y"

fun fmul :: "fval \<Rightarrow> fval \<Rightarrow> fval" where
  "fmul NaN y = NaN"
| "fmul x NaN = NaN"
| "fmul (Fin a) (Fin b) = Fin (a * b)"
| "fmul x y = inf_of_sign (fsign x * fsign y)"

fun fdiv :: "fval \<Rightarrow> fval \<Rightarrow> fval" where
  "fdiv NaN y = NaN"
| "fdiv x NaN = NaN"
| "fdiv (Fin a) (Fin b) = (if b = 0 then inf_of_sign (sgn a) else Fin (a / b))"
| "fdiv (Fin a) y = Fin 0"
| "fdiv x (Fin b) = inf_of_sign (if 0 \<le> b then fsign x else - fsign x)"
| "fdiv x y = NaN"

definition is_special :: "fval \<Rightarrow> bool" where
  "is_special x = (case x of Fin a \<Rightarrow> False | _ \<Rightarrow> True)"

section \<open>Helper functions of the dashboard\<close>

text \<open>
  \<^verbatim>\<open>def mgL_to_meq(mgL, mw, charge): return mgL / mw * charge\<close>.
  Every call passes a column as \<open>mgL\<close>, so the operators are the element-wise ones.
\<close>

definition mgL_to_meq :: "fval \<Rightarrow> fval \<Rightarrow> fval \<Rightarrow> fval" where
  "mgL_to_meq mgL mw charge = fmul (fdiv mgL mw) charge"

text \<open>
  The three status labels of \<^verbatim>\<open>classify_salinisation\<close>. In the source they are
  the strings "Saline", "Slightly Saline" and "Fresh", each behind a coloured circle.
\<close>

datatype status = Saline | Slightly_Saline | Fresh

definition classify_salinisation :: "fval \<Rightarrow> fval \<Rightarrow> status \<times> int" where
  "classify_salinisation ec cl =
    (let score = 0;
         score = (if fgt ec (Fin 1500) then score + 50
                  else if fgt ec (Fin 750) then score + 25
                  else score);
         score = (if fgt cl (Fin 250) then score + 50
                  else if fgt cl (Fin 100) then score + 25
                  else score)
     in if score \<ge> 75 then (Saline, score)
        else if score \<ge> 40 then (Slightly_Saline, score)
        else (Fresh, score))"

section \<open>Columns and the data frame\<close>

text \<open>
  The frame after the classification step: the six required input columns and the nine
  columns the script adds, in the order it adds them.
\<close>

record dataframe =
  Na :: "fval list"
  Ca :: "fval list"
  Mg :: "fval list"
  Cl :: "fval list"
  HCO3 :: "fval list"
  EC :: "fval list"
  Na_meq :: "fval list"
  Ca_meq :: "fval list"
  Mg_meq :: "fval list"
  Cl_meq :: "fval list"
  HCO3_meq :: "fval list"
  Na_Cl :: "fval list"
  Cl_HCO3 :: "fval list"
  Salinity_Status :: "status list"
  Confidence :: "int list"

text \<open>Element-wise division of two columns of one frame (they share the index).\<close>

definition series_div :: "fval list \<Rightarrow> fval list \<Rightarrow> fval list" where
  "series_div xs ys = map2 fdiv xs ys"

subsection \<open>The median of a column\<close>

text \<open>
  \<^verbatim>\<open>Series.median()\<close> with its default \<open>skipna=True\<close>: the NaN cells are dropped,
  the infinite ones are kept; the rest is sorted and the middle cell is returned, or the
  mean of the two middle cells; a column with nothing left has the median NaN.
\<close>

definition dropna :: "fval list \<Rightarrow> fval list" where
  "dropna xs = filter (\<lambda>x. x \<noteq> NaN) xs"

fun finsert :: "fval \<Rightarrow> fval list \<Rightarrow> fval list" where
  "finsert x [] = [x]"
| "finsert x (y # ys) = (if fle x y then x # y # ys else y # finsert x ys)"

fun fsort :: "fval list \<Rightarrow> fval list" where
  "fsort [] = []"
| "fsort (x # xs) = finsert x (fsort xs)"

definition middle :: "fval list \<Rightarrow> fval" where
  "middle ys =
    (let n = length ys
     in if n = 0 then NaN
        else if odd n then ys ! (n div 2)
        else fdiv (fadd (ys ! (n div 2 - 1)) (ys ! (n div 2))) (Fin 2))"

definition median :: "fval list \<Rightarrow> fval" where
  "median xs = middle (fsort (dropna xs))"

subsection \<open>Normalised value counts\<close>

text \<open>
  \<^verbatim>\<open>value_counts(normalize=True)\<close> is a dictionary from the labels that occur to
  their share of the rows; \<^verbatim>\<open>.get(label, 0)\<close> reads it with the default 0.
\<close>

definition value_counts_normalized :: "status list \<Rightarrow> (status \<rightharpoonup> real)" where
  "value_counts_normalized xs =
    (\<lambda>s. if s \<in> set xs then Some (real (count_list xs s) / real (length xs)) else None)"

definition get_default :: "(status \<rightharpoonup> real) \<Rightarrow> status \<Rightarrow> real \<Rightarrow> real" where
  "get_default m k d = (case m k of None \<Rightarrow> d | Some v \<Rightarrow> v)"

section \<open>The overall recommendation\<close>

definition fresh_aquifer_text :: string where
  "fresh_aquifer_text =
    ''Overall groundwater quality indicates a fresh aquifer with no significant '' @
    ''salinisation impact. Current groundwater use is sustainable; however, '' @
    ''periodic monitoring is recommended to detect future changes.''"

definition early_stage_text :: string where
  "early_stage_text =
    ''The aquifer shows early-stage salinisation, with a mix of fresh and slightly '' @
    ''saline samples. Preventive management measures such as regulated pumping, '' @
    ''controlled abstraction, and regular hydrochemical monitoring are advised.''"

definition seawater_intrusion_text :: string where
  "seawater_intrusion_text =
    ''A significant proportion of samples indicate salinisation with Na/Cl ratios '' @
    ''close to unity, suggesting seawater intrusion. Immediate intervention is '' @
    ''required, including reduction of groundwater abstraction near the coast, '' @
    ''artificial recharge, and implementation of hydraulic control measures.''"

definition evaporation_text :: string where
  "evaporation_text =
    ''Widespread salinisation is observed, likely influenced by evaporation and '' @
    ''ion exchange processes. Groundwater is unsuitable for drinking purposes, '' @
    ''and alternative water sources or blending strategies should be considered.''"

definition chloride_dominated_text :: string where
  "chloride_dominated_text =
    ''The aquifer is affected by chloride-dominated salinity. Restriction of '' @
    ''domestic usage and implementation of long-term salinity mitigation '' @
    ''strategies are strongly recommended.''"

definition insufficient_data_text :: string where
  "insufficient_data_text = ''Insufficient data to derive an overall recommendation.''"

text \<open>
  The statistics \<^verbatim>\<open>generate_overall_recommendation\<close> reads off the frame
  (lines 37 to 42). It also takes the maximum of the EC column, which it never uses.
\<close>

definition saline_frac :: "dataframe \<Rightarrow> real" where
  "saline_frac df = get_default (value_counts_normalized (Salinity_Status df)) Saline 0"

definition slight_frac :: "dataframe \<Rightarrow> real" where
  "slight_frac df = get_default (value_counts_normalized (Salinity_Status df)) Slightly_Saline 0"

definition median_na_cl :: "dataframe \<Rightarrow> fval" where
  "median_na_cl df = median (Na_Cl df)"

definition median_cl_hco3 :: "dataframe \<Rightarrow> fval" where
  "median_cl_hco3 df = median (Cl_HCO3 df)"

text \<open>The chain of tests on these statistics (lines 45 to 80), in the source's order.\<close>

definition select_recommendation :: "real \<Rightarrow> real \<Rightarrow> fval \<Rightarrow> string" where
  "select_recommendation saline slight med_na_cl =
    (if saline < 0.2 \<and> slight < 0.3 then fresh_aquifer_text
     else if saline < 0.4 then early_stage_text
     else if saline \<ge> 0.4 then
       (if fle (Fin 0.85) med_na_cl \<and> fle med_na_cl (Fin 1.15) then seawater_intrusion_text
        else if fgt med_na_cl (Fin 1.15) then evaporation_text
        else chloride_dominated_text)
     else insufficient_data_text)"

definition generate_overall_recommendation :: "dataframe \<Rightarrow> string" where
  "generate_overall_recommendation df =
    select_recommendation (saline_frac df) (slight_frac df) (median_na_cl df)"

section \<open>The script: upload check and core computation\<close>

text \<open>
  An uploaded table is its named columns, in file order. The script stops with the list
  of missing required columns (\<^verbatim>\<open>st.error\<close> then \<^verbatim>\<open>st.stop()\<close>) or goes on
  to the conversion, the ratios, the classification and the recommendation. Reading a
  column that is not there raises \<open>KeyError\<close>.
\<close>

type_synonym table = "(string \<times> fval list) list"

datatype error = SchemaError "string list" | KeyError string

definition required_cols :: "string list" where
  "required_cols = [''Na'', ''Ca'', ''Mg'', ''Cl'', ''HCO3'', ''EC'']"

definition table_columns :: "table \<Rightarrow> string list" where
  "table_columns t = map fst t"

definition missing_cols :: "table \<Rightarrow> string list" where
  "missing_cols t = filter (\<lambda>c. c \<notin> set (table_columns t)) required_cols"

definition getcol :: "table \<Rightarrow> string \<Rightarrow> error + fval list" where
  "getcol t c = (case map_of t c of None \<Rightarrow> Inl (KeyError c) | Some xs \<Rightarrow> Inr xs)"

fun and_then :: "error + 'a \<Rightarrow> ('a \<Rightarrow> error + 'b) \<Rightarrow> error + 'b" where
  "and_then (Inl e) f = Inl e"
| "and_then (Inr x) f = f x"

text \<open>Lines 106 to 126: the columns the script adds to the frame.\<close>

definition enrich ::
  "fval list \<Rightarrow> fval list \<Rightarrow> fval list \<Rightarrow> fval list \<Rightarrow> fval list \<Rightarrow> fval list \<Rightarrow> dataframe" where
  "enrich na ca mg cl hco3 ec =
    (let na_meq = map (\<lambda>x. mgL_to_meq x (Fin 23) (Fin 1)) na;
         ca_meq = map (\<lambda>x. mgL_to_meq x (Fin 40) (Fin 2)) ca;
         mg_meq = map (\<lambda>x. mgL_to_meq x (Fin 24.3) (Fin 2)) mg;
         cl_meq = map (\<lambda>x. mgL_to_meq x (Fin 35.45) (Fin 1)) cl;
         hco3_meq = map (\<lambda>x. mgL_to_meq x (Fin 61) (Fin 1)) hco3;
         na_cl = series_div na_meq cl_meq;
         cl_hco3 = series_div cl_meq hco3_meq;
         results = map2 classify_salinisation ec cl
     in \<lparr>Na = na, Ca = ca, Mg = mg, Cl = cl, HCO3 = hco3, EC = ec,
         Na_meq = na_meq, Ca_meq = ca_meq, Mg_meq = mg_meq, Cl_meq = cl_meq,
         HCO3_meq = hco3_meq, Na_Cl = na_cl, Cl_HCO3 = cl_hco3,
         Salinity_Status = map fst results, Confidence = map snd results\<rparr>)"

definition pipeline :: "table \<Rightarrow> error + (dataframe \<times> string)" where
  "pipeline t =
    (let missing = missing_cols t
     in if missing \<noteq> [] then Inl (SchemaError missing)
        else
          and_then (getcol t ''Na'') (\<lambda>na.
          and_then (getcol t ''Ca'') (\<lambda>ca.
          and_then (getcol t ''Mg'') (\<lambda>mg.
          and_then (getcol t ''Cl'') (\<lambda>cl.
          and_then (getcol t ''HCO3'') (\<lambda>hco3.
          and_then (getcol t ''EC'') (\<lambda>ec.
            let df = enrich na ca mg cl hco3 ec
            in Inr (df, generate_overall_recommendation df))))))))"

section \<open>Definitions used to state the properties\<close>


text \<open>
  The score and status rules in the words of the specification: the contribution of the
  conductivity, the contribution of the chloride, and the status that belongs to a score.
\<close>

definition spec_ec_contribution :: "fval \<Rightarrow> int" where
  "spec_ec_contribution ec =
    (if fgt ec (Fin 1500) then 50 else if fgt ec (Fin 750) \<and> fle ec (Fin 1500) then 25 else 0)"

definition spec_cl_contribution :: "fval \<Rightarrow> int" where
  "spec_cl_contribution cl =
    (if fgt cl (Fin 250) then 50 else if fgt cl (Fin 100) \<and> fle cl (Fin 250) then 25 else 0)"

definition spec_status_of_score :: "int \<Rightarrow> status" where
  "spec_status_of_score s =
    (if s \<ge> 75 then Saline else if 40 \<le> s \<and> s < 75 then Slightly_Saline else Fresh)"

text \<open>
  The median in the words of the specification: over the rows whose denominator is
  not zero, with nothing else dropped.
\<close>

definition median_over_defined :: "fval list \<Rightarrow> fval list \<Rightarrow> fval" where
  "median_over_defined nums dens =
    middle (fsort (map (\<lambda>(n, d). fdiv n d) (filter (\<lambda>(n, d). d \<noteq> Fin 0) (zip nums dens))))"

text \<open>
  The rows the code keeps for a median when all inputs are finite: those whose numerator
  and denominator are not both zero.
\<close>

definition not_both_zero :: "fval list \<Rightarrow> fval list \<Rightarrow> (fval \<times> fval) list" where
  "not_both_zero nums dens = filter (\<lambda>(n, d). \<not> (n = Fin 0 \<and> d = Fin 0)) (zip nums dens)"

definition is_finite :: "fval \<Rightarrow> bool" where
  "is_finite x = (\<not> is_special x)"

subsection \<open>Concrete data sets\<close>

text \<open>
  Six rows, two slightly saline (EC 1000, Cl 141.8) and four fresh (EC 500, Cl 35.45); the
  sodium is chosen so that every Na/Cl ratio is 1. The second frame has one saline row
  (EC 2000, Cl 354.5) more; the third has three of the fresh rows replaced by saline ones.
\<close>

definition mixed_frame :: dataframe where
  "mixed_frame = enrich
     [Fin 92, Fin 92, Fin 23, Fin 23, Fin 23, Fin 23]
     [Fin 40, Fin 40, Fin 40, Fin 40, Fin 40, Fin 40]
     [Fin 24.3, Fin 24.3, Fin 24.3, Fin 24.3, Fin 24.3, Fin 24.3]
     [Fin 141.8, Fin 141.8, Fin 35.45, Fin 35.45, Fin 35.45, Fin 35.45]
     [Fin 61, Fin 61, Fin 61, Fin 61, Fin 61, Fin 61]
     [Fin 1000, Fin 1000, Fin 500, Fin 500, Fin 500, Fin 500]"





text \<open>
  Two rows, the second with no chloride and no bicarbonate; and three rows, the second
  with no sodium, chloride or bicarbonate, the third with sodium only.
\<close>

definition zero_chloride_frame :: dataframe where
  "zero_chloride_frame = enrich [Fin 23, Fin 23] [Fin 40, Fin 40] [Fin 24.3, Fin 24.3]
     [Fin 35.45, Fin 0] [Fin 61, Fin 0] [Fin 500, Fin 500]"

definition blank_frame :: dataframe where
  "blank_frame = enrich [Fin 23, Fin 0, Fin 46] [Fin 40, Fin 40, Fin 40] [Fin 24.3, Fin 24.3, Fin 24.3]
     [Fin 35.45, Fin 0, Fin 0] [Fin 61, Fin 0, Fin 0] [Fin 500, Fin 500, Fin 500]"

text \<open>An upload with a column of site numbers and every required column but HCO3.\<close>

definition no_hco3_table :: table where
  "no_hco3_table = [(''Site'', [Fin 1, Fin 2]), (''Na'', [Fin 23, Fin 46]), (''Ca'', [Fin 40, Fin 40]),
     (''Mg'', [Fin 24.3, Fin 24.3]), (''Cl'', [Fin 35.45, Fin 70.9]), (''EC'', [Fin 500, Fin 800])]"

section \<open>Auxiliary facts\<close>

subsection \<open>Texts and their severity\<close>

lemma texts_distinct:
  "distinct [fresh_aquifer_text, early_stage_text, seawater_intrusion_text,
             evaporation_text, chloride_dominated_text, insufficient_data_text]"
  by (simp add: fresh_aquifer_text_def early_stage_text_def seawater_intrusion_text_def
      evaporation_text_def chloride_dominated_text_def insufficient_data_text_def)



lemma select_not_insufficient: "select_recommendation s l m \<noteq> insufficient_data_text"
  using texts_distinct by (auto simp: select_recommendation_def)

subsection \<open>Shares of a status\<close>

lemma frac_eq:
  "get_default (value_counts_normalized xs) s 0 = real (count_list xs s) / real (length xs)"
  by (simp add: get_default_def value_counts_normalized_def)

lemma frac_bounds:
  "0 \<le> get_default (value_counts_normalized xs) s 0"
  "get_default (value_counts_normalized xs) s 0 \<le> 1"
proof -
  have "count_list xs s \<le> length xs" by (rule count_le_length)
  then have "real (count_list xs s) \<le> real (length xs)" by simp
  then show "get_default (value_counts_normalized xs) s 0 \<le> 1"
    unfolding frac_eq by (cases "xs = []") (simp_all add: divide_le_eq_1)
  show "0 \<le> get_default (value_counts_normalized xs) s 0"
    unfolding frac_eq by simp
qed

subsection \<open>The columns of the enriched frame\<close>

lemma enrich_sel:
  "Na_meq (enrich na ca mg cl hco3 ec) = map (\<lambda>x. mgL_to_meq x (Fin 23) (Fin 1)) na"
  "Ca_meq (enrich na ca mg cl hco3 ec) = map (\<lambda>x. mgL_to_meq x (Fin 40) (Fin 2)) ca"
  "Mg_meq (enrich na ca mg cl hco3 ec) = map (\<lambda>x. mgL_to_meq x (Fin 24.3) (Fin 2)) mg"
  "Cl_meq (enrich na ca mg cl hco3 ec) = map (\<lambda>x. mgL_to_meq x (Fin 35.45) (Fin 1)) cl"
  "HCO3_meq (enrich na ca mg cl hco3 ec) = map (\<lambda>x. mgL_to_meq x (Fin 61) (Fin 1)) hco3"
  "Na_Cl (enrich na ca mg cl hco3 ec) =
     series_div (Na_meq (enrich na ca mg cl hco3 ec)) (Cl_meq (enrich na ca mg cl hco3 ec))"
  "Cl_HCO3 (enrich na ca mg cl hco3 ec) =
     series_div (Cl_meq (enrich na ca mg cl hco3 ec)) (HCO3_meq (enrich na ca mg cl hco3 ec))"
  "Salinity_Status (enrich na ca mg cl hco3 ec) = map fst (map2 classify_salinisation ec cl)"
  "Confidence (enrich na ca mg cl hco3 ec) = map snd (map2 classify_salinisation ec cl)"
  by (simp_all add: enrich_def Let_def)


lemma series_div_nth:
  "i < length xs \<Longrightarrow> i < length ys \<Longrightarrow> series_div xs ys ! i = fdiv (xs ! i) (ys ! i)"
  by (simp add: series_div_def)

lemma fdiv_zero_special: "is_special (fdiv x (Fin 0))"
  by (cases x) (simp_all add: is_special_def inf_of_sign_def)

lemma is_finite_iff: "is_finite x \<longleftrightarrow> (\<exists>a. x = Fin a)"
  by (cases x) (simp_all add: is_finite_def is_special_def)

lemma meq_finite: "is_finite x \<Longrightarrow> m \<noteq> 0 \<Longrightarrow> is_finite (mgL_to_meq x (Fin m) (Fin z))"
  by (auto simp: is_finite_iff mgL_to_meq_def)

lemma dropna_series_div:
  assumes "list_all is_finite xs" "list_all is_finite ys"
  shows "dropna (series_div xs ys) = map (\<lambda>(n, d). fdiv n d) (not_both_zero xs ys)"
proof -
  have "(fdiv n d \<noteq> NaN) = (\<not> (n = Fin 0 \<and> d = Fin 0))" if "(n, d) \<in> set (zip xs ys)" for n d
  proof -
    from that have "n \<in> set xs" "d \<in> set ys" by (auto dest: set_zip_leftD set_zip_rightD)
    with assms have "is_finite n" "is_finite d"
      by (simp_all add: list_all_iff)
    then obtain a b where "n = Fin a" "d = Fin b"
      unfolding is_finite_iff by blast
    then show ?thesis by (simp add: inf_of_sign_def sgn_if)
  qed
  then have "filter (\<lambda>(n, d). fdiv n d \<noteq> NaN) (zip xs ys) = not_both_zero xs ys"
    unfolding not_both_zero_def by (intro filter_cong) auto
  then show ?thesis
    by (simp add: dropna_def series_div_def filter_map comp_def case_prod_unfold)
qed

lemma kept_zero_denominator:
  assumes "list_all is_finite xs" "(n, Fin 0) \<in> set (not_both_zero xs ys)"
  shows "fdiv n (Fin 0) = PInf \<or> fdiv n (Fin 0) = NInf"
proof -
  from assms(2) have "n \<in> set xs" "n \<noteq> Fin 0"
    by (auto simp: not_both_zero_def dest: set_zip_leftD)
  with assms(1) have "is_finite n" "n \<noteq> Fin 0"
    by (simp_all add: list_all_iff)
  then obtain a where "n = Fin a" "a \<noteq> 0"
    unfolding is_finite_iff by auto
  then show ?thesis by (auto simp: inf_of_sign_def sgn_if)
qed

subsection \<open>The script on a complete and on an incomplete upload\<close>

lemma pipeline_ok:
  assumes "map_of t ''Na'' = Some na" "map_of t ''Ca'' = Some ca" "map_of t ''Mg'' = Some mg"
    "map_of t ''Cl'' = Some cl" "map_of t ''HCO3'' = Some hco3" "map_of t ''EC'' = Some ec"
  shows "pipeline t = Inr (enrich na ca mg cl hco3 ec,
           generate_overall_recommendation (enrich na ca mg cl hco3 ec))"
proof -
  have "c \<in> set (table_columns t)" if "map_of t c = Some xs" for c xs
    using that by (auto simp: table_columns_def dest: map_of_SomeD intro: rev_image_eqI)
  with assms have "missing_cols t = []"
    by (simp add: missing_cols_def required_cols_def)
  with assms show ?thesis
    by (simp add: pipeline_def getcol_def Let_def)
qed

lemma set_missing_cols: "set (missing_cols t) = set required_cols - set (table_columns t)"
  by (auto simp: missing_cols_def)

subsection \<open>The concrete data sets\<close>








subsection \<open>Comparisons\<close>

lemma not_fgt_fle: "fge x (Fin 0) \<Longrightarrow> \<not> fgt x (Fin b) \<Longrightarrow> fle x (Fin b)"
  by (cases x) (auto simp: fgt_def fge_def)

section \<open>The classifier\<close>

text \<open>
  Claim C1, as the specification states it, expects the status Slightly Saline for EC = 1500
  and Cl = 0. The code gives the score 25 there, which is below 40, so the status is Fresh.
\<close>

theorem boundary_counterexample:
  "classify_salinisation (Fin 1500) (Fin 0) = (Fresh, 25)
   \<and> classify_salinisation (Fin 1500) (Fin 0) \<noteq> (Slightly_Saline, 25)"
  by (simp add: classify_salinisation_def fgt_def)

text \<open>
  Claim C1, amended: for EC = 1500 and Cl = 0 the classifier returns the score 25 and the
  status Fresh; for EC = 1501 and Cl = 0 the score 50 and the status Slightly Saline; for
  EC = 1501 and Cl = 251 the score 100 and the status Saline.
\<close>

theorem boundary_values:
  "classify_salinisation (Fin 1500) (Fin 0) = (Fresh, 25)
   \<and> classify_salinisation (Fin 1501) (Fin 0) = (Slightly_Saline, 50)
   \<and> classify_salinisation (Fin 1501) (Fin 251) = (Saline, 100)"
  by (simp add: classify_salinisation_def fgt_def)

text \<open>
  Claim C5: for every EC and Cl that are at least 0 (an infinity included), the score is
  the sum of the two contributions as the specification words them, it is one of 0, 25,
  50, 75 and 100, and the status is the one the specification gives that score.
\<close>

theorem classify_score_and_status:
  assumes "fge ec (Fin 0)" "fge cl (Fin 0)"
  shows "snd (classify_salinisation ec cl) = spec_ec_contribution ec + spec_cl_contribution cl
    \<and> snd (classify_salinisation ec cl) \<in> {0, 25, 50, 75, 100}
    \<and> fst (classify_salinisation ec cl) = spec_status_of_score (snd (classify_salinisation ec cl))"
  using assms
  by (auto simp: classify_salinisation_def spec_ec_contribution_def spec_cl_contribution_def
      spec_status_of_score_def Let_def dest: not_fgt_fle)

text \<open>Claim C5 at EC = 1000 and Cl = 300: the contributions 25 and 50, the status Saline.\<close>

theorem classify_score_and_status_witness:
  "fge (Fin 1000) (Fin 0) \<and> fge (Fin 300) (Fin 0)
   \<and> snd (classify_salinisation (Fin 1000) (Fin 300)) = 75
   \<and> spec_ec_contribution (Fin 1000) = 25 \<and> spec_cl_contribution (Fin 300) = 50
   \<and> fst (classify_salinisation (Fin 1000) (Fin 300)) = Saline"
  using classify_score_and_status [of "Fin 1000" "Fin 300"]
  by (simp add: fge_def spec_ec_contribution_def spec_cl_contribution_def
      spec_status_of_score_def fgt_def)

text \<open>
  Claim C10: the classifier has a result for every pair of inputs, and for every
  EC at most 750 and Cl at most 100, negative values and the negative infinity among
  them, the result is the status Fresh with the score 0.
\<close>

theorem classify_low_inputs_fresh:
  "(fle ec (Fin 750) \<and> fle cl (Fin 100) \<longrightarrow> classify_salinisation ec cl = (Fresh, 0))
   \<and> (e < 0 \<and> c < 0 \<longrightarrow> classify_salinisation (Fin e) (Fin c) = (Fresh, 0))
   \<and> (\<exists>st sc. classify_salinisation ec cl = (st, sc))"
  by (cases ec; cases cl) (auto simp: classify_salinisation_def fgt_def)

text \<open>Claim C10 at EC = -5 with Cl the negative infinity, and with Cl = -1.\<close>

theorem classify_low_inputs_fresh_witness:
  "fle (Fin (- 5)) (Fin 750) \<and> fle NInf (Fin 100) \<and> (- 5 :: real) < 0 \<and> (- 1 :: real) < 0
   \<and> classify_salinisation (Fin (- 5)) NInf = (Fresh, 0)
   \<and> classify_salinisation (Fin (- 5)) (Fin (- 1)) = (Fresh, 0)"
  using classify_low_inputs_fresh [of "Fin (- 5)" NInf "- 5" "- 1"]
  by simp

section \<open>Unit conversion and ratios\<close>



text \<open>
  Claim C2, as the specification states it, asks for an explicit marker where the
  denominator is zero. The code divides as IEEE does: in the second row of this frame
  Na/Cl is the positive infinity and Cl/HCO3 is NaN, and the infinity is the median of
  the Na/Cl column.
\<close>

theorem zero_denominator_counterexample:
  "Cl_meq zero_chloride_frame ! 1 = Fin 0
   \<and> Na_Cl zero_chloride_frame ! 1 = PInf
   \<and> HCO3_meq zero_chloride_frame ! 1 = Fin 0
   \<and> Cl_HCO3 zero_chloride_frame ! 1 = NaN
   \<and> median_na_cl zero_chloride_frame = PInf"
  by (simp add: zero_chloride_frame_def enrich_sel series_div_def mgL_to_meq_def
      inf_of_sign_def median_na_cl_def median_def dropna_def middle_def)

text \<open>
  Claim C2, amended: for every row whose Cl_meq is zero the Na_Cl cell is an infinity or
  a NaN, and likewise the Cl_HCO3 cell when HCO3_meq is zero; the code has no marker for
  an undefined ratio.
\<close>

theorem zero_denominator_special:
  "(i < length na \<and> i < length cl \<and> Cl_meq (enrich na ca mg cl hco3 ec) ! i = Fin 0
      \<longrightarrow> is_special (Na_Cl (enrich na ca mg cl hco3 ec) ! i))
   \<and> (i < length cl \<and> i < length hco3 \<and> HCO3_meq (enrich na ca mg cl hco3 ec) ! i = Fin 0
      \<longrightarrow> is_special (Cl_HCO3 (enrich na ca mg cl hco3 ec) ! i))"
proof -
  let ?df = "enrich na ca mg cl hco3 ec"
  have a: "is_special (Na_Cl ?df ! i)"
    if "i < length na" "i < length cl" "Cl_meq ?df ! i = Fin 0"
  proof -
    have "Na_Cl ?df ! i = fdiv (Na_meq ?df ! i) (Cl_meq ?df ! i)"
      using that(1,2) by (simp add: enrich_sel(6) series_div_nth enrich_sel(1,4))
    with that(3) show ?thesis by (simp add: fdiv_zero_special)
  qed
  have b: "is_special (Cl_HCO3 ?df ! i)"
    if "i < length cl" "i < length hco3" "HCO3_meq ?df ! i = Fin 0"
  proof -
    have "Cl_HCO3 ?df ! i = fdiv (Cl_meq ?df ! i) (HCO3_meq ?df ! i)"
      using that(1,2) by (simp add: enrich_sel(7) series_div_nth enrich_sel(4,5))
    with that(3) show ?thesis by (simp add: fdiv_zero_special)
  qed
  from a b show ?thesis by blast
qed

text \<open>Claim C2, amended, at the second row of the frame above.\<close>

theorem zero_denominator_special_witness:
  "(1::nat) < length [Fin 23, Fin 23] \<and> (1::nat) < length [Fin 35.45, Fin 0]
   \<and> (1::nat) < length [Fin 61, Fin 0]
   \<and> Cl_meq zero_chloride_frame ! 1 = Fin 0
   \<and> HCO3_meq zero_chloride_frame ! 1 = Fin 0
   \<and> is_special (Na_Cl zero_chloride_frame ! 1)
   \<and> is_special (Cl_HCO3 zero_chloride_frame ! 1)"
  using zero_denominator_special [of 1 "[Fin 23, Fin 23]" "[Fin 35.45, Fin 0]"
      "[Fin 40, Fin 40]" "[Fin 24.3, Fin 24.3]" "[Fin 61, Fin 0]" "[Fin 500, Fin 500]"]
  by (simp add: zero_chloride_frame_def enrich_sel mgL_to_meq_def)

section \<open>The medians\<close>

text \<open>
  Claim C4, as the specification states it, takes the median over the rows with a non-zero
  denominator. In this frame that median is 1, and the code's median is the positive
  infinity: the row with Cl_meq = 0 and Na_meq = 1 is counted with its infinite ratio.
\<close>

theorem median_counterexample:
  "median_na_cl zero_chloride_frame = PInf
   \<and> median_over_defined (Na_meq zero_chloride_frame) (Cl_meq zero_chloride_frame) = Fin 1"
  by (simp add: zero_chloride_frame_def enrich_sel series_div_def mgL_to_meq_def
      inf_of_sign_def median_na_cl_def median_def dropna_def middle_def median_over_defined_def)

text \<open>
  Claim C4, amended: when the concentrations are finite, median_na_cl and median_cl_hco3
  are the medians over exactly the rows whose numerator and denominator equivalents are
  not both zero. A row with both zero (ratio NaN) is left out, not counted as zero; a
  row with a zero denominator and a non-zero numerator is counted, with an infinite ratio.
\<close>

theorem median_excludes_nan_only:
  assumes "list_all is_finite na" "list_all is_finite cl" "list_all is_finite hco3"
  shows "median_na_cl (enrich na ca mg cl hco3 ec) =
      middle (fsort (map (\<lambda>(n, d). fdiv n d)
        (not_both_zero (Na_meq (enrich na ca mg cl hco3 ec)) (Cl_meq (enrich na ca mg cl hco3 ec)))))
    \<and> median_cl_hco3 (enrich na ca mg cl hco3 ec) =
      middle (fsort (map (\<lambda>(n, d). fdiv n d)
        (not_both_zero (Cl_meq (enrich na ca mg cl hco3 ec)) (HCO3_meq (enrich na ca mg cl hco3 ec)))))
    \<and> ((n, Fin 0) \<in> set (not_both_zero (Na_meq (enrich na ca mg cl hco3 ec))
                          (Cl_meq (enrich na ca mg cl hco3 ec)))
       \<longrightarrow> fdiv n (Fin 0) = PInf \<or> fdiv n (Fin 0) = NInf)"
proof -
  let ?df = "enrich na ca mg cl hco3 ec"
  have fin: "list_all is_finite (Na_meq ?df)" "list_all is_finite (Cl_meq ?df)"
    "list_all is_finite (HCO3_meq ?df)"
    using assms by (simp_all add: enrich_sel list_all_iff meq_finite)
  have "median_na_cl ?df = middle (fsort (dropna (series_div (Na_meq ?df) (Cl_meq ?df))))"
    by (simp add: median_na_cl_def median_def enrich_sel(6))
  moreover have "median_cl_hco3 ?df = middle (fsort (dropna (series_div (Cl_meq ?df) (HCO3_meq ?df))))"
    by (simp add: median_cl_hco3_def median_def enrich_sel(7))
  ultimately show ?thesis
    using fin kept_zero_denominator [OF fin(1), of n "Cl_meq ?df"]
    by (simp add: dropna_series_div)
qed

text \<open>
  Claim C4, amended, at a frame of three rows with the ratios 1, NaN and the positive
  infinity for Na/Cl and 1, NaN and NaN for Cl/HCO3.
\<close>

theorem median_excludes_nan_only_witness:
  "list_all is_finite [Fin 23, Fin 0, Fin 46] \<and> list_all is_finite [Fin 35.45, Fin 0, Fin 0]
   \<and> list_all is_finite [Fin 61, Fin 0, Fin 0]
   \<and> Na_Cl blank_frame = [Fin 1, NaN, PInf]
   \<and> Cl_HCO3 blank_frame = [Fin 1, NaN, NaN]
   \<and> median_na_cl blank_frame = PInf
   \<and> median_cl_hco3 blank_frame = Fin 1"
  using median_excludes_nan_only [of "[Fin 23, Fin 0, Fin 46]" "[Fin 35.45, Fin 0, Fin 0]"
      "[Fin 61, Fin 0, Fin 0]" "[Fin 40, Fin 40, Fin 40]" "[Fin 24.3, Fin 24.3, Fin 24.3]"
      "[Fin 500, Fin 500, Fin 500]" "Fin 2"]
  by (simp add: blank_frame_def enrich_sel series_div_def mgL_to_meq_def not_both_zero_def
      inf_of_sign_def middle_def is_finite_def is_special_def)

section \<open>Properties of the overall recommendation\<close>



text \<open>
  Claim C9: for shares between 0 and 1 one of the three tests on the saline share holds and
  the insufficient-data text is not returned; the shares of every frame lie between 0
  and 1, and no frame gets the insufficient-data text.
\<close>

theorem fallback_unreachable:
  assumes "0 \<le> s" "s \<le> 1" "0 \<le> l" "l \<le> 1"
  shows "select_recommendation s l m \<noteq> insufficient_data_text
    \<and> ((s < 0.2 \<and> l < 0.3) \<or> s < 0.4 \<or> s \<ge> 0.4)
    \<and> 0 \<le> saline_frac df \<and> saline_frac df \<le> 1
    \<and> 0 \<le> slight_frac df \<and> slight_frac df \<le> 1
    \<and> generate_overall_recommendation df \<noteq> insufficient_data_text"
  using select_not_insufficient [of s l m]
    select_not_insufficient [of "saline_frac df" "slight_frac df" "median_na_cl df"]
    frac_bounds [of "Salinity_Status df" Saline]
    frac_bounds [of "Salinity_Status df" Slightly_Saline]
  by (auto simp: generate_overall_recommendation_def saline_frac_def slight_frac_def)

text \<open>Claim C9 at the saline share 1/2, the slight share 0 and a NaN median.\<close>

theorem fallback_unreachable_witness:
  "(0::real) \<le> 1 / 2 \<and> (1::real) / 2 \<le> 1 \<and> (0::real) \<le> 0 \<and> (0::real) \<le> 1
   \<and> select_recommendation (1 / 2) 0 NaN \<noteq> insufficient_data_text
   \<and> select_recommendation (1 / 2) 0 NaN = chloride_dominated_text
   \<and> generate_overall_recommendation mixed_frame \<noteq> insufficient_data_text"
  using fallback_unreachable [of "1 / 2" 0 NaN mixed_frame]
  by (simp add: select_recommendation_def fgt_def)




section \<open>Missing columns\<close>

text \<open>
  Claim C8: an upload that lacks a required column ends with the schema error that lists
  exactly the required columns it lacks, in the order of the required list, and with no
  frame and no recommendation; an upload that lacks only HCO3 ends with the list of HCO3
  alone.
\<close>

theorem missing_columns_rejected:
  assumes "\<not> set required_cols \<subseteq> set (table_columns t)"
  shows "pipeline t = Inl (SchemaError (missing_cols t))
    \<and> missing_cols t \<noteq> []
    \<and> set (missing_cols t) = set required_cols - set (table_columns t)
    \<and> missing_cols t =
        filter (\<lambda>c. c \<notin> set (table_columns t)) [''Na'', ''Ca'', ''Mg'', ''Cl'', ''HCO3'', ''EC'']
    \<and> (\<forall>out. pipeline t \<noteq> Inr out)
    \<and> (''HCO3'' \<notin> set (table_columns t)
        \<and> {''Na'', ''Ca'', ''Mg'', ''Cl'', ''EC''} \<subseteq> set (table_columns t)
       \<longrightarrow> pipeline t = Inl (SchemaError [''HCO3'']))"
proof -
  from assms have ne: "missing_cols t \<noteq> []"
    using set_missing_cols [of t] by (metis Diff_eq_empty_iff set_empty)
  then have run: "pipeline t = Inl (SchemaError (missing_cols t))"
    by (simp add: pipeline_def Let_def)
  have only: "missing_cols t = [''HCO3'']"
    if "''HCO3'' \<notin> set (table_columns t)"
      "{''Na'', ''Ca'', ''Mg'', ''Cl'', ''EC''} \<subseteq> set (table_columns t)"
    using that by (simp add: missing_cols_def required_cols_def)
  show ?thesis
    using ne run only set_missing_cols [of t]
    by (simp add: missing_cols_def required_cols_def)
qed

text \<open>Claim C8 at an upload with a site column and all required columns but HCO3.\<close>

theorem missing_columns_rejected_witness:
  "\<not> set required_cols \<subseteq> set (table_columns no_hco3_table)
   \<and> ''HCO3'' \<notin> set (table_columns no_hco3_table)
   \<and> {''Na'', ''Ca'', ''Mg'', ''Cl'', ''EC''} \<subseteq> set (table_columns no_hco3_table)
   \<and> pipeline no_hco3_table = Inl (SchemaError [''HCO3''])"
  using missing_columns_rejected [of no_hco3_table]
  by (simp add: no_hco3_table_def table_columns_def required_cols_def)

end
